theory Spec2Isabelle
  imports Complex_Main "HOL-Library.Sublist"
begin

section \<open>Python values\<close>

text \<open>
  A Python \<open>str\<close> is a sequence of Unicode code points: \<open>len\<close> counts code points and
  a slice cuts between them. The texts of the program are Chinese, so a string is modelled
  as the list of its code points. ASCII pieces are written with \<open>ascii\<close>, all other
  literals as code-point lists with an English gloss.
\<close>

type_synonym ustr = "nat list"

definition ascii :: "string \<Rightarrow> ustr" where
  "ascii s = map of_char s"

definition nl :: ustr where
  "nl = [10]"

text \<open>\<open>str.isspace\<close> on one code point: the white space that \<open>str.strip()\<close> removes.\<close>

definition is_space :: "nat \<Rightarrow> bool" where
  "is_space c \<longleftrightarrow>
     (9 \<le> c \<and> c \<le> 13) \<or> (28 \<le> c \<and> c \<le> 32) \<or> c = 133 \<or> c = 160 \<or> c = 5760
     \<or> (8192 \<le> c \<and> c \<le> 8202) \<or> c = 8232 \<or> c = 8233 \<or> c = 8239 \<or> c = 8287
     \<or> c = 12288"

definition strip :: "ustr \<Rightarrow> ustr" where
  "strip s = rev (dropWhile is_space (rev (dropWhile is_space s)))"

text \<open>The decimal rendering of a non-negative integer inside an f-string.\<close>

fun str_of_nat :: "nat \<Rightarrow> ustr" where
  "str_of_nat n = (if n < 10 then [48 + n] else str_of_nat (n div 10) @ [48 + n mod 10])"

declare str_of_nat.simps [simp del]

text \<open>\<open>sep.join(xs)\<close>.\<close>

fun join :: "ustr \<Rightarrow> ustr list \<Rightarrow> ustr" where
  "join sep [] = []"
| "join sep [x] = x"
| "join sep (x # y # ys) = x @ sep @ join sep (y # ys)"

text \<open>Truthiness of an \<open>Optional[str]\<close>: \<open>None\<close> and the empty string are false.\<close>

fun truthy :: "ustr option \<Rightarrow> bool" where
  "truthy None = False"
| "truthy (Some s) = (s \<noteq> [])"

text \<open>\<open>x or default\<close> on an \<open>Optional[str]\<close>.\<close>

fun or_else :: "ustr option \<Rightarrow> ustr \<Rightarrow> ustr" where
  "or_else None dflt = dflt"
| "or_else (Some s) dflt = (if s \<noteq> [] then s else dflt)"

text \<open>
  The exceptions of the model: \<open>AttributeError\<close> is what reading an attribute of
  \<open>None\<close> raises; \<open>WriterError\<close> stands for whatever the patent writer, a module of
  its own that the processor only calls, may raise.
\<close>

datatype py_error = AttributeError | WriterError

section \<open>Data model (schemas/disclosure_schemas.py)\<close>

record TechnicalProblem =
  description :: ustr
  existing_solutions :: "ustr option"
  limitations :: "ustr option"

record TechnicalSolution =
  overview :: ustr
  key_steps :: "ustr list"
  innovation_points :: "ustr list"
  implementation_details :: "ustr option"

text \<open>
  The fields of \<open>PatentDisclosure\<close> that the processor reads. \<open>technical_solution\<close> is
  declared as a \<open>TechnicalSolution\<close>, but the validator tests it with \<open>not\<close>, and a model
  object is never false: the test is for \<open>None\<close>, which assignment or \<open>construct\<close> can put
  there without validation. Hence the option type.
\<close>

record PatentDisclosure =
  title :: ustr
  patent_type :: ustr
  inventors :: "ustr list"
  applicant_name :: ustr
  applicant_address :: "ustr option"
  contact_phone :: "ustr option"
  contact_email :: "ustr option"
  technical_field :: ustr
  background_description :: ustr
  technical_problems :: "TechnicalProblem list"
  technical_solution :: "TechnicalSolution option"
  beneficial_effects :: "ustr list"
  embodiments :: "ustr list"
  figure_descriptions :: "ustr list"
  prior_art_references :: "ustr list"

text \<open>
  \<open>completeness_score\<close> is a float. Every value it takes here is \<open>100.0\<close> minus a sum of
  the integer weights 5, 10 and 15, at most eleven of them: an integer between -15 and 100,
  which binary64 represents exactly, so the float arithmetic is the arithmetic of the reals.
\<close>

record DisclosureValidationResult =
  is_valid :: bool
  errors :: "ustr list"
  warnings :: "ustr list"
  suggestions :: "ustr list"
  completeness_score :: real

section \<open>The validator (tools/disclosure\_processor.py, validate\_disclosure)\<close>

subsection \<open>Messages\<close>

definition msg_title_short :: ustr where
  \<comment> \<open>"invention title too short or empty, at least 5 characters required"\<close>
  "msg_title_short = [21457, 26126, 21517, 31216, 36807, 30701, 25110, 20026, 31354, 65292,
     33267, 23569, 38656, 35201, 53, 20010, 23383, 31526]"

definition msg_no_inventor :: ustr where
  \<comment> \<open>"there must be at least one inventor"\<close>
  "msg_no_inventor = [24517, 39035, 33267, 23569, 26377, 19968, 20301, 21457, 26126, 20154]"

definition msg_no_applicant :: ustr where
  \<comment> \<open>"applicant name must not be empty"\<close>
  "msg_no_applicant = [30003, 35831, 20154, 21517, 31216, 19981, 33021, 20026, 31354]"

definition msg_field_short :: ustr where
  \<comment> \<open>"technical field description too short, at least 10 characters required"\<close>
  "msg_field_short = [25216, 26415, 39046, 22495, 25551, 36848, 36807, 30701, 65292, 33267,
     23569, 38656, 35201, 49, 48, 20010, 23383, 31526]"

definition msg_background_short :: ustr where
  \<comment> \<open>"background description too short, at least 50 characters required"\<close>
  "msg_background_short = [32972, 26223, 25216, 26415, 25551, 36848, 36807, 30701, 65292,
     33267, 23569, 38656, 35201, 53, 48, 20010, 23383, 31526]"

definition msg_no_problem :: ustr where
  \<comment> \<open>"at least one technical problem to be solved must be described"\<close>
  "msg_no_problem = [24517, 39035, 25551, 36848, 33267, 23569, 19968, 20010, 35201, 35299,
     20915, 30340, 25216, 26415, 38382, 39064]"

definition msg_no_solution :: ustr where
  \<comment> \<open>"technical solution must not be empty"\<close>
  "msg_no_solution = [25216, 26415, 26041, 26696, 19981, 33021, 20026, 31354]"

definition msg_no_overview :: ustr where
  \<comment> \<open>"technical solution overview must not be empty"\<close>
  "msg_no_overview = [25216, 26415, 26041, 26696, 27010, 36848, 19981, 33021, 20026, 31354]"

definition msg_no_effect :: ustr where
  \<comment> \<open>"at least one beneficial effect must be described"\<close>
  "msg_no_effect = [24517, 39035, 25551, 36848, 33267, 23569, 19968, 39033, 26377, 30410,
     25928, 26524]"

definition msg_no_embodiment :: ustr where
  \<comment> \<open>"providing at least one concrete embodiment is recommended"\<close>
  "msg_no_embodiment = [24314, 35758, 25552, 20379, 33267, 23569, 19968, 20010, 20855, 20307,
     23454, 26045, 20363]"

definition msg_no_figures :: ustr where
  \<comment> \<open>"providing figure descriptions is recommended"\<close>
  "msg_no_figures = [24314, 35758, 25552, 20379, 38468, 22270, 35828, 26126]"

definition msg_utility_figures :: ustr where
  \<comment> \<open>"a utility model patent must have figure descriptions"\<close>
  "msg_utility_figures = [23454, 29992, 26032, 22411, 19987, 21033, 24517, 39035, 26377,
     38468, 22270, 35828, 26126]"

definition sug_innovation :: ustr where
  \<comment> \<open>"listing the innovation points explicitly is recommended, it helps drafting the claims"\<close>
  "sug_innovation = [24314, 35758, 26126, 30830, 21015, 20986, 25216, 26415, 26041, 26696,
     30340, 21019, 26032, 28857, 65292, 26377, 21161, 20110, 25776, 20889, 26435, 21033,
     35201, 27714, 20070]"

definition sug_prior_art :: ustr where
  \<comment> \<open>"providing prior art references is recommended, it helps drafting the background"\<close>
  "sug_prior_art = [24314, 35758, 25552, 20379, 29616, 26377, 25216, 26415, 21442, 32771,
     25991, 29486, 65292, 26377, 21161, 20110, 25776, 20889, 32972, 26223, 25216, 26415,
     37096, 20998]"

definition sug_email :: ustr where
  \<comment> \<open>"providing a contact e-mail is recommended, for later communication"\<close>
  "sug_email = [24314, 35758, 25552, 20379, 32852, 31995, 37038, 31665, 65292, 20415, 20110,
     21518, 32493, 27807, 36890]"

subsection \<open>The running state of a validation\<close>

text \<open>The four local variables \<open>errors\<close>, \<open>warnings\<close>, \<open>suggestions\<close> and \<open>score\<close>.\<close>

record vstate =
  v_errors :: "ustr list"
  v_warnings :: "ustr list"
  v_suggestions :: "ustr list"
  v_score :: real

definition v_init :: vstate where
  "v_init = \<lparr>v_errors = [], v_warnings = [], v_suggestions = [], v_score = 100\<rparr>"

text \<open>\<open>errors.append(msg); score -= w\<close>\<close>

definition add_error :: "ustr \<Rightarrow> real \<Rightarrow> vstate \<Rightarrow> vstate" where
  "add_error msg w st = st\<lparr>v_errors := v_errors st @ [msg], v_score := v_score st - w\<rparr>"

text \<open>\<open>warnings.append(msg); score -= w\<close>\<close>

definition add_warning :: "ustr \<Rightarrow> real \<Rightarrow> vstate \<Rightarrow> vstate" where
  "add_warning msg w st = st\<lparr>v_warnings := v_warnings st @ [msg], v_score := v_score st - w\<rparr>"

text \<open>\<open>suggestions.append(msg)\<close>\<close>

definition add_suggestion :: "ustr \<Rightarrow> vstate \<Rightarrow> vstate" where
  "add_suggestion msg st = st\<lparr>v_suggestions := v_suggestions st @ [msg]\<rparr>"

text \<open>An \<open>if\<close> statement without \<open>else\<close>.\<close>

definition if_stmt :: "bool \<Rightarrow> (vstate \<Rightarrow> vstate) \<Rightarrow> vstate \<Rightarrow> vstate" where
  "if_stmt c f st = (if c then f st else st)"

text \<open>Running a sequence of statements.\<close>

definition run :: "(vstate \<Rightarrow> vstate) list \<Rightarrow> vstate \<Rightarrow> vstate" where
  "run stmts st = fold (\<lambda>f s. f s) stmts st"

subsection \<open>The checks\<close>

text \<open>Lines 74 to 120: the checks of the required and of the recommended fields.\<close>

definition field_checks :: "PatentDisclosure \<Rightarrow> vstate" where
  "field_checks d = run
     [ if_stmt (title d = [] \<or> length (strip (title d)) < 5) (add_error msg_title_short 15),
       if_stmt (inventors d = [] \<or> length (inventors d) = 0) (add_error msg_no_inventor 10),
       if_stmt (applicant_name d = []) (add_error msg_no_applicant 10),
       if_stmt (technical_field d = [] \<or> length (strip (technical_field d)) < 10)
         (add_error msg_field_short 10),
       if_stmt (background_description d = [] \<or> length (strip (background_description d)) < 50)
         (add_error msg_background_short 10),
       if_stmt (technical_problems d = [] \<or> length (technical_problems d) = 0)
         (add_error msg_no_problem 15),
       (case technical_solution d of
          None \<Rightarrow> add_error msg_no_solution 15
        | Some s \<Rightarrow> if_stmt (overview s = []) (add_error msg_no_overview 10)),
       if_stmt (beneficial_effects d = [] \<or> length (beneficial_effects d) = 0)
         (add_error msg_no_effect 10),
       if_stmt (embodiments d = [] \<or> length (embodiments d) = 0) (add_warning msg_no_embodiment 5),
       if_stmt (figure_descriptions d = [] \<or> length (figure_descriptions d) = 0)
         (add_warning msg_no_figures 5),
       if_stmt (patent_type d = ascii ''utility_model'' \<and> length (figure_descriptions d) = 0)
         (add_error msg_utility_figures 10) ]
     v_init"

text \<open>
  Lines 123 to 130: the suggestions. Line 123 reads
  \<open>disclosure.technical_solution.innovation_points\<close> with no guard, which raises
  \<open>AttributeError\<close> if_stmt the solution is \<open>None\<close>.
\<close>

definition suggestion_checks :: "PatentDisclosure \<Rightarrow> vstate \<Rightarrow> py_error + vstate" where
  "suggestion_checks d st =
     (case technical_solution d of
        None \<Rightarrow> Inl AttributeError
      | Some s \<Rightarrow> Inr (run
          [ if_stmt (length (innovation_points s) = 0) (add_suggestion sug_innovation),
            if_stmt (length (prior_art_references d) = 0) (add_suggestion sug_prior_art),
            if_stmt (\<not> truthy (contact_email d)) (add_suggestion sug_email) ]
          st))"

text \<open>The state at line 131, before the score is clamped.\<close>

definition validate_checks :: "PatentDisclosure \<Rightarrow> py_error + vstate" where
  "validate_checks d = suggestion_checks d (field_checks d)"

text \<open>Lines 133 to 141: clamp the score and build the result.\<close>

definition make_result :: "vstate \<Rightarrow> DisclosureValidationResult" where
  "make_result st =
     \<lparr> is_valid = (length (v_errors st) = 0),
       errors = v_errors st,
       warnings = v_warnings st,
       suggestions = v_suggestions st,
       completeness_score = max 0 (min 100 (v_score st)) \<rparr>"

definition validate_disclosure :: "PatentDisclosure \<Rightarrow> py_error + DisclosureValidationResult" where
  "validate_disclosure d =
     (case validate_checks d of
        Inl e \<Rightarrow> Inl e
      | Inr st \<Rightarrow> Inr (make_result st))"

section \<open>The claim synthesizer (\_generate\_claims\_from\_disclosure)\<close>

definition lit_characterized :: ustr where
  \<comment> \<open>", characterized in that:" (full-width comma and colon)\<close>
  "lit_characterized = [65292, 20854, 29305, 24449, 22312, 20110, 65306]"

definition lit_lparen :: ustr where
  \<comment> \<open>full-width left parenthesis\<close>
  "lit_lparen = [65288]"

definition lit_rparen :: ustr where
  \<comment> \<open>full-width right parenthesis\<close>
  "lit_rparen = [65289]"

definition lit_semicolon :: ustr where
  \<comment> \<open>full-width semicolon\<close>
  "lit_semicolon = [65307]"

definition lit_stop :: ustr where
  \<comment> \<open>ideographic full stop\<close>
  "lit_stop = [12290]"

definition lit_comprises :: ustr where
  \<comment> \<open>"comprises"\<close>
  "lit_comprises = [21253, 25324]"

definition lit_according :: ustr where
  \<comment> \<open>"The ... according to claim 1": the text between the number and the title;
      the code point 49 is the digit 1\<close>
  "lit_according = [26681, 25454, 26435, 21033, 35201, 27714, 49, 25152, 36848, 30340]"

definition lit_fallback2 :: ustr where
  \<comment> \<open>"the technical solution further comprises a data preprocessing step."\<close>
  "lit_fallback2 = [25152, 36848, 25216, 26415, 26041, 26696, 36824, 21253, 25324, 25968, 25454,
     39044, 22788, 29702, 27493, 39588, 12290]"

definition lit_fallback3 :: ustr where
  \<comment> \<open>"the technical solution further comprises a result verification step."\<close>
  "lit_fallback3 = [25152, 36848, 25216, 26415, 26041, 26696, 36824, 21253, 25324, 32467, 26524,
     39564, 35777, 27493, 39588, 12290]"

definition lit_fallback4 :: ustr where
  \<comment> \<open>"the technical solution can be applied to many scenarios."\<close>
  "lit_fallback4 = [25152, 36848, 25216, 26415, 26041, 26696, 21487, 20197, 24212, 29992, 20110,
     22810, 31181, 22330, 26223, 12290]"

definition lit_system_a :: ustr where
  \<comment> \<open>"A system implementing the method of any one of claims"\<close>
  "lit_system_a = [19968, 31181, 23454, 29616, 26435, 21033, 35201, 27714]"

definition lit_system_b :: ustr where
  \<comment> \<open>", characterized in that: it comprises a processing module, a control module
      and an output module."\<close>
  "lit_system_b = [20219, 19968, 39033, 25152, 36848, 26041, 27861, 30340, 31995, 32479, 65292,
     20854, 29305, 24449, 22312, 20110, 65306, 21253, 25324, 22788, 29702, 27169,
     22359, 12289, 25511, 21046, 27169, 22359, 21644, 36755, 20986, 27169, 22359,
     12290]"

text \<open>Lines 422 to 427: claim 1, from the key steps or else from the overview.\<close>

definition independent_claim :: "ustr \<Rightarrow> TechnicalSolution \<Rightarrow> ustr" where
  "independent_claim t s =
     ascii ''1. '' @ t @ lit_characterized @ nl @
     (if key_steps s \<noteq> [] then
        concat (map (\<lambda>(i, step).
          ascii ''    '' @ lit_lparen @ str_of_nat (i + 1) @ lit_rparen @ step @ lit_semicolon @ nl)
          (enumerate 0 (key_steps s)))
      else ascii ''    '' @ lit_comprises @ take 50 (overview s) @ lit_stop)"

text \<open>Line 433: the dependent claim number \<open>i\<close> for one innovation point.\<close>

definition dependent_claim :: "ustr \<Rightarrow> nat \<Rightarrow> ustr \<Rightarrow> ustr" where
  "dependent_claim t i point =
     str_of_nat i @ ascii ''. '' @ lit_according @ t @ lit_characterized @ point @ lit_stop"

text \<open>Lines 437 to 439: the three default dependent claims, numbered by literals.\<close>

definition fallback_claims :: "ustr \<Rightarrow> ustr list" where
  "fallback_claims t =
     [ ascii ''2. '' @ lit_according @ t @ lit_characterized @ lit_fallback2,
       ascii ''3. '' @ lit_according @ t @ lit_characterized @ lit_fallback3,
       ascii ''4. '' @ lit_according @ t @ lit_characterized @ lit_fallback4 ]"

text \<open>Lines 431 to 439: the dependent claims.\<close>

definition dependent_claims :: "ustr \<Rightarrow> TechnicalSolution \<Rightarrow> ustr list" where
  "dependent_claims t s =
     (if innovation_points s \<noteq> [] then
        map (\<lambda>(i, point). dependent_claim t i point) (enumerate 2 (take 4 (innovation_points s)))
      else fallback_claims t)"

text \<open>Line 442: the system claim, a literal with the number 5 and the range 1-4 in it.\<close>

definition system_claim :: ustr where
  "system_claim = ascii ''5. '' @ lit_system_a @ ascii ''1-4'' @ lit_system_b"

text \<open>
  The whole function. Its first read of \<open>disclosure.technical_solution.key_steps\<close>
  raises \<open>AttributeError\<close> when the solution is \<open>None\<close>.
\<close>

definition generate_claims_from_disclosure :: "PatentDisclosure \<Rightarrow> py_error + ustr list" where
  "generate_claims_from_disclosure d =
     (case technical_solution d of
        None \<Rightarrow> Inl AttributeError
      | Some s \<Rightarrow>
          Inr ([independent_claim (title d) s] @ dependent_claims (title d) s @ [system_claim]))"

text \<open>
  The number a claim shows: its text before the first full stop (code point 46). This is
  what a reader of the claim set sees as the claim's index.
\<close>

definition claim_number :: "ustr \<Rightarrow> ustr" where
  "claim_number c = takeWhile (\<lambda>x. x \<noteq> 46) c"

section \<open>The request normalizer (disclosure\_to\_patent\_request)\<close>

text \<open>
  \<open>schemas/patent_schemas.py\<close> and \<open>tools/patent_writer.py\<close> are modules that the
  processor only imports. The records below are modelled from their uses in the processor: the keyword arguments
  of the constructors it calls and the attributes it reads. Field names that would clash
  with those of the disclosure carry a prefix.
\<close>

datatype PatentType = INVENTION | UTILITY_MODEL | DESIGN

record PatentDraftRequest =
  invention_description :: ustr
  req_technical_field :: ustr
  background_info :: ustr
  specific_problems :: ustr
  solution :: ustr
  req_beneficial_effects :: ustr
  req_patent_type :: PatentType
  language :: ustr

record ApplicantInfo =
  name :: ustr
  address :: ustr
  country :: ustr
  email :: "ustr option"
  phone :: "ustr option"

record InventorInfo =
  inv_name :: ustr
  inv_country :: ustr

record PatentApplication =
  app_title :: ustr
  app_patent_type :: PatentType
  applicant :: ApplicantInfo
  app_inventors :: "InventorInfo list"
  app_technical_field :: ustr
  brief_description :: ustr
  invention_content :: ustr

text \<open>
  \<open>PatentWriter.generate_patent_application\<close>, taken as a parameter: it returns an
  application or raises.
\<close>

type_synonym patent_writer =
  "PatentDraftRequest \<Rightarrow> ApplicantInfo \<Rightarrow> InventorInfo list \<Rightarrow> py_error + PatentApplication"

definition lit_existing :: ustr where
  \<comment> \<open>"existing solutions:"\<close>
  "lit_existing = [29616, 26377, 26041, 26696, 65306]"

definition lit_limits :: ustr where
  \<comment> \<open>"limitations:"\<close>
  "lit_limits = [23616, 38480, 24615, 65306]"

definition lit_key_steps :: ustr where
  \<comment> \<open>"key steps:"\<close>
  "lit_key_steps = [20851, 38190, 27493, 39588, 65306]"

definition lit_innovations :: ustr where
  \<comment> \<open>"innovation points:"\<close>
  "lit_innovations = [21019, 26032, 28857, 65306]"

definition lit_impl :: ustr where
  \<comment> \<open>"implementation details:"\<close>
  "lit_impl = [23454, 29616, 32454, 33410, 65306]"

definition lit_solution :: ustr where
  \<comment> \<open>"technical solution:"\<close>
  "lit_solution = [25216, 26415, 26041, 26696, 65306]"

definition lit_embodiments :: ustr where
  \<comment> \<open>"detailed embodiments:"\<close>
  "lit_embodiments = [20855, 20307, 23454, 26045, 26041, 24335, 65306]"

definition lit_tbd :: ustr where
  \<comment> \<open>"to be supplemented"\<close>
  "lit_tbd = [24453, 34917, 20805]"

definition lit_to_fill :: ustr where
  \<comment> \<open>"to be filled in"\<close>
  "lit_to_fill = [24453, 22635, 20889]"

definition lit_china :: ustr where
  \<comment> \<open>"China"\<close>
  "lit_china = [20013, 22269]"

text \<open>\<open>prefix + x\<close> when the optional text \<open>x\<close> is true, nothing otherwise.\<close>

definition opt_block :: "ustr \<Rightarrow> ustr option \<Rightarrow> ustr \<Rightarrow> ustr" where
  "opt_block before x after =
     (case x of None \<Rightarrow> [] | Some s \<Rightarrow> if s \<noteq> [] then before @ s @ after else [])"

text \<open>A numbered list: one line \<open>{i}. {item}\<close> per item, counted from 1.\<close>

definition numbered_lines :: "ustr list \<Rightarrow> ustr" where
  "numbered_lines xs =
     concat (map (\<lambda>(i, x). str_of_nat i @ ascii ''. '' @ x @ nl) (enumerate 1 xs))"

text \<open>Lines 154 to 161.\<close>

definition problems_text :: "TechnicalProblem list \<Rightarrow> ustr" where
  "problems_text ps =
     concat (map (\<lambda>(i, problem).
       str_of_nat i @ ascii ''. '' @ description problem
       @ opt_block (nl @ ascii ''   '' @ lit_existing) (existing_solutions problem) []
       @ opt_block (nl @ ascii ''   '' @ lit_limits) (limitations problem) []
       @ nl @ nl) (enumerate 1 ps))"

text \<open>Lines 164 to 176.\<close>

definition solution_text :: "TechnicalSolution \<Rightarrow> ustr" where
  "solution_text s =
     overview s @ nl @ nl
     @ (if key_steps s \<noteq> [] then lit_key_steps @ nl @ numbered_lines (key_steps s) @ nl else [])
     @ (if innovation_points s \<noteq> []
        then lit_innovations @ nl @ numbered_lines (innovation_points s) @ nl else [])
     @ opt_block (lit_impl @ nl) (implementation_details s) nl"

text \<open>Line 179.\<close>

definition effects_text :: "ustr list \<Rightarrow> ustr" where
  "effects_text es = join nl (map (\<lambda>effect. ascii ''- '' @ effect) es)"

text \<open>Lines 182 to 190: the triple-quoted f-string, stripped.\<close>

definition invention_description_text :: "PatentDisclosure \<Rightarrow> TechnicalSolution \<Rightarrow> ustr" where
  "invention_description_text d s =
     strip (nl @ title d @ nl @ nl @ lit_solution @ nl @ overview s @ nl @ nl
            @ lit_embodiments @ nl
            @ (if embodiments d \<noteq> [] then join nl (embodiments d) else lit_tbd)
            @ nl @ ascii ''        '')"

text \<open>Lines 193 to 197.\<close>

definition patent_type_of :: "ustr \<Rightarrow> PatentType" where
  "patent_type_of t =
     (if t = ascii ''utility_model'' then UTILITY_MODEL
      else if t = ascii ''design'' then DESIGN
      else INVENTION)"

text \<open>
  The whole function. Line 164 is the first read of an attribute of the solution and
  raises \<open>AttributeError\<close> when it is \<open>None\<close>.
\<close>

definition disclosure_to_patent_request :: "PatentDisclosure \<Rightarrow> py_error + PatentDraftRequest" where
  "disclosure_to_patent_request d =
     (case technical_solution d of
        None \<Rightarrow> Inl AttributeError
      | Some s \<Rightarrow> Inr
          \<lparr> invention_description = invention_description_text d s,
            req_technical_field = technical_field d,
            background_info = background_description d,
            specific_problems = problems_text (technical_problems d),
            solution = solution_text s,
            req_beneficial_effects = effects_text (beneficial_effects d),
            req_patent_type = patent_type_of (patent_type d),
            language = ascii ''zh'' \<rparr>)"

section \<open>The pipeline (process\_disclosure)\<close>

text \<open>Lines 237 to 243.\<close>

definition applicant_info_of :: "PatentDisclosure \<Rightarrow> ApplicantInfo" where
  "applicant_info_of d =
     \<lparr> name = applicant_name d,
       address = or_else (applicant_address d) lit_to_fill,
       country = lit_china,
       email = contact_email d,
       phone = contact_phone d \<rparr>"

text \<open>Lines 246 to 249.\<close>

definition inventor_info_of :: "PatentDisclosure \<Rightarrow> InventorInfo list" where
  "inventor_info_of d = map (\<lambda>n. \<lparr>inv_name = n, inv_country = lit_china\<rparr>) (inventors d)"

text \<open>
  Lines 234 to 259, the assembly of the application: normalize, call the writer, and
  overwrite the title with the disclosure's.
\<close>

definition assemble_application :: "patent_writer \<Rightarrow> PatentDisclosure \<Rightarrow> py_error + PatentApplication" where
  "assemble_application writer d =
     (case disclosure_to_patent_request d of
        Inl e \<Rightarrow> Inl e
      | Inr draft_request \<Rightarrow>
          (case writer draft_request (applicant_info_of d) (inventor_info_of d) of
             Inl e \<Rightarrow> Inl e
           | Inr application \<Rightarrow> Inr (application\<lparr>app_title := title d\<rparr>)))"

definition process_disclosure ::
  "patent_writer \<Rightarrow> PatentDisclosure \<Rightarrow> bool
     \<Rightarrow> py_error + (PatentApplication option \<times> DisclosureValidationResult option)" where
  "process_disclosure writer d validate =
     (if validate then
        (case validate_disclosure d of
           Inl e \<Rightarrow> Inl e
         | Inr validation_result \<Rightarrow>
             if \<not> is_valid validation_result then Inr (None, Some validation_result)
             else (case assemble_application writer d of
                     Inl e \<Rightarrow> Inl e
                   | Inr application \<Rightarrow> Inr (Some application, Some validation_result)))
      else
        (case assemble_application writer d of
           Inl e \<Rightarrow> Inl e
         | Inr application \<Rightarrow> Inr (Some application, None)))"

section \<open>The document assembler (\_format\_enhanced\_application)\<close>

definition lit_banner :: ustr where
  \<comment> \<open>"PATENT APPLICATION DOCUMENT", spaced out\<close>
  "lit_banner = [19987, 32, 21033, 32, 30003, 32, 35831, 32, 25991, 32, 20214]"

definition lit_type_label :: ustr where
  \<comment> \<open>"[patent type]"\<close>
  "lit_type_label = [12304, 19987, 21033, 31867, 22411, 12305]"

definition lit_invention :: ustr where
  \<comment> \<open>"invention patent"\<close>
  "lit_invention = [21457, 26126, 19987, 21033]"

definition lit_utility :: ustr where
  \<comment> \<open>"utility model patent"\<close>
  "lit_utility = [23454, 29992, 26032, 22411, 19987, 21033]"

definition lit_design :: ustr where
  \<comment> \<open>"design patent"\<close>
  "lit_design = [22806, 35266, 35774, 35745, 19987, 21033]"

definition lit_title_label :: ustr where
  \<comment> \<open>"[invention title]"\<close>
  "lit_title_label = [12304, 21457, 26126, 21517, 31216, 12305]"

definition lit_applicant :: ustr where
  \<comment> \<open>"[applicant]"\<close>
  "lit_applicant = [12304, 30003, 35831, 20154, 12305]"

definition lit_address :: ustr where
  \<comment> \<open>"[address]", two spaces inside\<close>
  "lit_address = [12304, 22320, 32, 32, 22336, 12305]"

definition lit_inventors :: ustr where
  \<comment> \<open>"[inventors]"\<close>
  "lit_inventors = [12304, 21457, 26126, 20154, 12305]"

definition lit_field :: ustr where
  \<comment> \<open>"[technical field]"\<close>
  "lit_field = [12304, 25216, 26415, 39046, 22495, 12305]"

definition lit_background :: ustr where
  \<comment> \<open>"[background]"\<close>
  "lit_background = [12304, 32972, 26223, 25216, 26415, 12305]"

definition lit_content :: ustr where
  \<comment> \<open>"[content of the invention]"\<close>
  "lit_content = [12304, 21457, 26126, 20869, 23481, 12305]"

definition lit_sec_problems :: ustr where
  \<comment> \<open>"I. Technical problems to be solved"\<close>
  "lit_sec_problems = [19968, 12289, 35201, 35299, 20915, 30340, 25216, 26415, 38382, 39064]"

definition lit_prior_limits :: ustr where
  \<comment> \<open>"limitations of the prior art:"\<close>
  "lit_prior_limits = [29616, 26377, 25216, 26415, 23616, 38480, 24615, 65306]"

definition lit_sec_solution :: ustr where
  \<comment> \<open>"II. Technical solution"\<close>
  "lit_sec_solution = [20108, 12289, 25216, 26415, 26041, 26696]"

definition lit_steps_intro :: ustr where
  \<comment> \<open>"It comprises the following steps:"\<close>
  "lit_steps_intro = [20855, 20307, 21253, 25324, 20197, 19979, 27493, 39588, 65306]"

definition lit_step :: ustr where
  \<comment> \<open>"step"\<close>
  "lit_step = [27493, 39588]"

definition lit_colon :: ustr where
  \<comment> \<open>full-width colon\<close>
  "lit_colon = [65306]"

definition lit_points_intro :: ustr where
  \<comment> \<open>"The innovation points of the invention are:"\<close>
  "lit_points_intro = [26412, 21457, 26126, 30340, 21019, 26032, 28857, 22312, 20110, 65306]"

definition lit_sec_effects :: ustr where
  \<comment> \<open>"III. Beneficial effects"\<close>
  "lit_sec_effects = [19977, 12289, 26377, 30410, 25928, 26524]"

definition lit_effects_intro :: ustr where
  \<comment> \<open>"Compared with the prior art, the invention has the following beneficial effects:"\<close>
  "lit_effects_intro = [19982, 29616, 26377, 25216, 26415, 30456, 27604, 65292, 26412, 21457, 26126,
     20855, 26377, 20197, 19979, 26377, 30410, 25928, 26524, 65306]"

definition lit_figures :: ustr where
  \<comment> \<open>"[description of the figures]"\<close>
  "lit_figures = [12304, 38468, 22270, 35828, 26126, 12305]"

definition lit_detailed :: ustr where
  \<comment> \<open>"[detailed embodiments]"\<close>
  "lit_detailed = [12304, 20855, 20307, 23454, 26045, 26041, 24335, 12305]"

definition lit_detailed_intro :: ustr where
  \<comment> \<open>"The invention is further described below with the figures and embodiments."\<close>
  "lit_detailed_intro = [19979, 38754, 32467, 21512, 38468, 22270, 21644, 23454, 26045, 20363, 23545,
     26412, 21457, 26126, 20316, 36827, 19968, 27493, 35828, 26126, 12290]"

definition lit_embodiment :: ustr where
  \<comment> \<open>"embodiment"\<close>
  "lit_embodiment = [23454, 26045, 20363]"

definition lit_claims :: ustr where
  \<comment> \<open>"[claims]"\<close>
  "lit_claims = [12304, 26435, 21033, 35201, 27714, 20070, 12305]"

definition lit_abstract :: ustr where
  \<comment> \<open>"[abstract]", two spaces inside\<close>
  "lit_abstract = [12304, 25688, 32, 32, 35201, 12305]"

definition lit_abs_discloses :: ustr where
  \<comment> \<open>"The invention discloses"\<close>
  "lit_abs_discloses = [26412, 21457, 26126, 20844, 24320, 20102]"

definition lit_abs_belongs :: ustr where
  \<comment> \<open>", belonging to"\<close>
  "lit_abs_belongs = [65292, 23646, 20110]"

definition lit_abs_problem :: ustr where
  \<comment> \<open>"The technical problem the invention solves is"\<close>
  "lit_abs_problem = [26412, 21457, 26126, 35201, 35299, 20915, 30340, 25216, 26415, 38382, 39064,
     26159]"

definition lit_abs_problem_default :: ustr where
  \<comment> \<open>"improving on the shortcomings of the prior art"\<close>
  "lit_abs_problem_default = [25913, 36827, 29616, 26377, 25216, 26415, 30340, 19981, 36275]"

definition lit_abs_solution :: ustr where
  \<comment> \<open>"The technical solution of the invention is"\<close>
  "lit_abs_solution = [26412, 21457, 26126, 30340, 25216, 26415, 26041, 26696, 26159]"

definition lit_abs_effect :: ustr where
  \<comment> \<open>"The beneficial effect of the invention is"\<close>
  "lit_abs_effect = [26412, 21457, 26126, 30340, 26377, 30410, 25928, 26524, 26159]"

definition lit_abs_effect_default :: ustr where
  \<comment> \<open>"improved efficiency"\<close>
  "lit_abs_effect_default = [25552, 39640, 20102, 25928, 29575]"

definition lit_abs_etc :: ustr where
  \<comment> \<open>"and so on."\<close>
  "lit_abs_etc = [31561, 12290]"

definition lit_end :: ustr where
  \<comment> \<open>"end of document"\<close>
  "lit_end = [25991, 20214, 32467, 26463]"

text \<open>The rules \<open>"=" * 60\<close> and \<open>"-" * 50\<close>.\<close>

definition double_rule :: ustr where
  "double_rule = replicate 60 61"

definition single_rule :: ustr where
  "single_rule = replicate 50 45"

text \<open>\<open>type_names.get(application.patent_type, ...)\<close>: the table has all three types.\<close>

fun type_name :: "PatentType \<Rightarrow> ustr" where
  "type_name INVENTION = lit_invention"
| "type_name UTILITY_MODEL = lit_utility"
| "type_name DESIGN = lit_design"

text \<open>Lines 303 to 337: from the head of the document to the heading of its content.\<close>

definition format_head :: "PatentApplication \<Rightarrow> PatentDisclosure \<Rightarrow> ustr" where
  "format_head application d =
     double_rule @ nl @ ascii ''           '' @ lit_banner @ nl @ double_rule @ nl @ nl
     @ lit_type_label @ type_name (app_patent_type application) @ nl @ nl
     @ single_rule @ nl @ lit_title_label @ nl @ app_title application @ nl @ nl
     @ single_rule @ nl
     @ lit_applicant @ name (applicant application) @ nl
     @ lit_address @ address (applicant application) @ nl
     @ lit_inventors @ join (ascii '', '') (map inv_name (app_inventors application)) @ nl @ nl
     @ single_rule @ nl @ lit_field @ nl @ app_technical_field application @ nl @ nl
     @ single_rule @ nl @ lit_background @ nl @ background_description d @ nl @ nl
     @ single_rule @ nl @ lit_content @ nl @ nl"

text \<open>Lines 340 to 368: problems, solution and effects.\<close>

definition format_content :: "PatentDisclosure \<Rightarrow> TechnicalSolution \<Rightarrow> ustr" where
  "format_content d s =
     lit_sec_problems @ nl
     @ concat (map (\<lambda>(i, problem).
         str_of_nat i @ ascii ''. '' @ description problem @ nl
         @ opt_block (ascii ''   '' @ lit_prior_limits) (limitations problem) nl)
         (enumerate 1 (technical_problems d)))
     @ nl
     @ lit_sec_solution @ nl @ overview s @ nl @ nl
     @ (if key_steps s \<noteq> [] then
          lit_steps_intro @ nl
          @ concat (map (\<lambda>(i, step). lit_step @ str_of_nat i @ lit_colon @ step @ nl)
              (enumerate 1 (key_steps s)))
          @ nl
        else [])
     @ (if innovation_points s \<noteq> [] then
          lit_points_intro @ nl
          @ concat (map (\<lambda>(i, point). lit_lparen @ str_of_nat i @ lit_rparen @ point @ nl)
              (enumerate 1 (innovation_points s)))
          @ nl
        else [])
     @ lit_sec_effects @ nl @ lit_effects_intro @ nl
     @ numbered_lines (beneficial_effects d)
     @ nl"

text \<open>Lines 371 to 392: figures, embodiments and implementation details.\<close>

definition format_embodiments ::
  "PatentApplication \<Rightarrow> PatentDisclosure \<Rightarrow> TechnicalSolution \<Rightarrow> ustr" where
  "format_embodiments application d s =
     single_rule @ nl @ lit_figures @ nl
     @ (if figure_descriptions d \<noteq> [] then concat (map (\<lambda>desc. desc @ nl) (figure_descriptions d))
        else brief_description application @ nl)
     @ nl
     @ single_rule @ nl @ lit_detailed @ nl @ lit_detailed_intro @ nl @ nl
     @ (if embodiments d \<noteq> [] then
          concat (map (\<lambda>(i, embodiment).
            lit_embodiment @ str_of_nat i @ lit_colon @ nl @ embodiment @ nl @ nl)
            (enumerate 1 (embodiments d)))
        else invention_content application @ nl @ nl)
     @ opt_block (lit_impl @ nl) (implementation_details s) (nl @ nl)"

text \<open>Lines 404 to 413: the abstract and the foot of the document.\<close>

definition format_abstract ::
  "PatentApplication \<Rightarrow> PatentDisclosure \<Rightarrow> TechnicalSolution \<Rightarrow> ustr" where
  "format_abstract application d s =
     single_rule @ nl @ lit_abstract @ nl
     @ lit_abs_discloses @ app_title application @ lit_abs_belongs
     @ app_technical_field application @ lit_stop
     @ lit_abs_problem
     @ (case technical_problems d of [] \<Rightarrow> lit_abs_problem_default | p # _ \<Rightarrow> description p)
     @ lit_stop
     @ lit_abs_solution @ take 100 (overview s) @ ascii ''...''
     @ lit_abs_effect
     @ (case beneficial_effects d of [] \<Rightarrow> lit_abs_effect_default | e # _ \<Rightarrow> e)
     @ lit_abs_etc @ nl @ nl
     @ double_rule @ nl @ ascii ''                    '' @ lit_end @ nl @ double_rule @ nl"

text \<open>
  The whole function. Everything before line 349 only builds text; line 349 reads the
  overview of the solution and raises \<open>AttributeError\<close> when the solution is \<open>None\<close>.
  The claims of line 399 come from the claim synthesizer.
\<close>

definition format_enhanced_application ::
  "PatentApplication \<Rightarrow> PatentDisclosure \<Rightarrow> py_error + ustr" where
  "format_enhanced_application application d =
     (case technical_solution d of
        None \<Rightarrow> Inl AttributeError
      | Some s \<Rightarrow>
          (case generate_claims_from_disclosure d of
             Inl e \<Rightarrow> Inl e
           | Inr claims \<Rightarrow> Inr
               (format_head application d
                @ format_content d s
                @ format_embodiments application d s
                @ single_rule @ nl @ lit_claims @ nl @ nl
                @ concat (map (\<lambda>claim. claim @ nl @ nl) claims)
                @ format_abstract application d s)))"

section \<open>The enhanced pipeline (generate\_enhanced\_patent)\<close>

definition lit_fail :: ustr where
  \<comment> \<open>"disclosure validation failed:"\<close>
  "lit_fail = [20132, 24213, 20070, 39564, 35777, 22833, 36133, 65306]"

definition lit_cross :: ustr where
  \<comment> \<open>the cross mark emoji\<close>
  "lit_cross = [10060]"

definition lit_warn :: ustr where
  \<comment> \<open>the warning sign emoji with its variation selector\<close>
  "lit_warn = [9888, 65039]"

text \<open>Lines 283 to 289: the report returned in place of a document.\<close>

definition failure_report :: "DisclosureValidationResult option \<Rightarrow> ustr" where
  "failure_report validation =
     lit_fail @ nl
     @ (case validation of
          None \<Rightarrow> []
        | Some v \<Rightarrow>
            concat (map (\<lambda>error. lit_cross @ ascii '' '' @ error @ nl) (errors v))
            @ concat (map (\<lambda>warning. lit_warn @ ascii '' '' @ warning @ nl) (warnings v)))"

definition generate_enhanced_patent :: "patent_writer \<Rightarrow> PatentDisclosure \<Rightarrow> py_error + ustr" where
  "generate_enhanced_patent writer d =
     (case process_disclosure writer d True of
        Inl e \<Rightarrow> Inl e
      | Inr (None, validation) \<Rightarrow> Inr (failure_report validation)
      | Inr (Some application, validation) \<Rightarrow> format_enhanced_application application d)"

section \<open>The checks of the validator, named\<close>

text \<open>
  The twelve conditions tested by \<open>validate_disclosure\<close> that carry a weight, each as the
  source writes it, and the weight subtracted when the condition holds.
\<close>

datatype check =
  TitleCheck | InventorsCheck | ApplicantCheck | FieldCheck | BackgroundCheck | ProblemsCheck
  | SolutionCheck | OverviewCheck | EffectsCheck | EmbodimentsCheck | FiguresCheck
  | UtilityFiguresCheck

fun fails :: "check \<Rightarrow> PatentDisclosure \<Rightarrow> bool" where
  "fails TitleCheck d = (title d = [] \<or> length (strip (title d)) < 5)"
| "fails InventorsCheck d = (inventors d = [] \<or> length (inventors d) = 0)"
| "fails ApplicantCheck d = (applicant_name d = [])"
| "fails FieldCheck d = (technical_field d = [] \<or> length (strip (technical_field d)) < 10)"
| "fails BackgroundCheck d =
     (background_description d = [] \<or> length (strip (background_description d)) < 50)"
| "fails ProblemsCheck d = (technical_problems d = [] \<or> length (technical_problems d) = 0)"
| "fails SolutionCheck d = (technical_solution d = None)"
| "fails OverviewCheck d =
     (case technical_solution d of None \<Rightarrow> False | Some s \<Rightarrow> overview s = [])"
| "fails EffectsCheck d = (beneficial_effects d = [] \<or> length (beneficial_effects d) = 0)"
| "fails EmbodimentsCheck d = (embodiments d = [] \<or> length (embodiments d) = 0)"
| "fails FiguresCheck d = (figure_descriptions d = [] \<or> length (figure_descriptions d) = 0)"
| "fails UtilityFiguresCheck d =
     (patent_type d = ascii ''utility_model'' \<and> length (figure_descriptions d) = 0)"

fun weight :: "check \<Rightarrow> real" where
  "weight TitleCheck = 15"
| "weight InventorsCheck = 10"
| "weight ApplicantCheck = 10"
| "weight FieldCheck = 10"
| "weight BackgroundCheck = 10"
| "weight ProblemsCheck = 15"
| "weight SolutionCheck = 15"
| "weight OverviewCheck = 10"
| "weight EffectsCheck = 10"
| "weight EmbodimentsCheck = 5"
| "weight FiguresCheck = 5"
| "weight UtilityFiguresCheck = 10"

definition penalty :: "check \<Rightarrow> PatentDisclosure \<Rightarrow> real" where
  "penalty c d = (if fails c d then weight c else 0)"

section \<open>Example disclosures\<close>

text \<open>
  Scenario A of the specification, with English texts: every required field filled, five
  key steps, no innovation points, no embodiments, no figures.
\<close>

definition solution_a :: TechnicalSolution where
  "solution_a =
     \<lparr> overview = ascii ''A convolutional network classifies the input images'',
       key_steps = [ascii ''collect images'', ascii ''label images'', ascii ''train the network'',
                    ascii ''validate the network'', ascii ''classify new images''],
       innovation_points = [],
       implementation_details = None \<rparr>"

definition scenario_a :: PatentDisclosure where
  "scenario_a =
     \<lparr> title = ascii ''Image recognition method'',
       patent_type = ascii ''invention'',
       inventors = [ascii ''Zhang San''],
       applicant_name = ascii ''Example Company'',
       applicant_address = None,
       contact_phone = None,
       contact_email = None,
       technical_field = ascii ''computer vision'',
       background_description =
         ascii ''Existing image recognition methods are slow and need very large data sets.'',
       technical_problems =
         [\<lparr>description = ascii ''low accuracy'', existing_solutions = None, limitations = None\<rparr>],
       technical_solution = Some solution_a,
       beneficial_effects = [ascii ''higher accuracy''],
       embodiments = [],
       figure_descriptions = [],
       prior_art_references = [] \<rparr>"

text \<open>What the validator returns on Scenario A.\<close>

definition result_a :: DisclosureValidationResult where
  "result_a =
     \<lparr> is_valid = True,
       errors = [],
       warnings = [msg_no_embodiment, msg_no_figures],
       suggestions = [sug_innovation, sug_prior_art, sug_email],
       completeness_score = 90 \<rparr>"

text \<open>Scenario B: Scenario A as a utility model.\<close>

definition scenario_b :: PatentDisclosure where
  "scenario_b = scenario_a\<lparr>patent_type := ascii ''utility_model''\<rparr>"

definition result_b :: DisclosureValidationResult where
  "result_b =
     \<lparr> is_valid = False,
       errors = [msg_utility_figures],
       warnings = [msg_no_embodiment, msg_no_figures],
       suggestions = [sug_innovation, sug_prior_art, sug_email],
       completeness_score = 80 \<rparr>"

text \<open>Scenario A with a given list of innovation points.\<close>

definition with_points :: "ustr list \<Rightarrow> PatentDisclosure" where
  "with_points ps = scenario_a\<lparr>technical_solution := Some (solution_a\<lparr>innovation_points := ps\<rparr>)\<rparr>"

text \<open>Scenario A with the technical solution absent.\<close>

definition no_solution :: PatentDisclosure where
  "no_solution = scenario_a\<lparr>technical_solution := None\<rparr>"

text \<open>
  A disclosure with every checked field empty and the solution present: a utility model
  whose solution has an empty overview.
\<close>

definition deficient :: PatentDisclosure where
  "deficient =
     \<lparr> title = [],
       patent_type = ascii ''utility_model'',
       inventors = [],
       applicant_name = [],
       applicant_address = None,
       contact_phone = None,
       contact_email = None,
       technical_field = [],
       background_description = [],
       technical_problems = [],
       technical_solution =
         Some \<lparr>overview = [], key_steps = [], innovation_points = [], implementation_details = None\<rparr>,
       beneficial_effects = [],
       embodiments = [],
       figure_descriptions = [],
       prior_art_references = [] \<rparr>"

text \<open>What the validator returns on it: the raw score is - 10, the reported score 0.\<close>

definition result_deficient :: DisclosureValidationResult where
  "result_deficient =
     \<lparr> is_valid = False,
       errors = [msg_title_short, msg_no_inventor, msg_no_applicant, msg_field_short,
                 msg_background_short, msg_no_problem, msg_no_overview, msg_no_effect,
                 msg_utility_figures],
       warnings = [msg_no_embodiment, msg_no_figures],
       suggestions = [sug_innovation, sug_prior_art, sug_email],
       completeness_score = 0 \<rparr>"

text \<open>Four innovation points, and five of which the fifth repeats the first.\<close>

definition four_points :: "ustr list" where
  "four_points =
     [ascii ''pruning'', ascii ''quantization'', ascii ''distillation'', ascii ''caching'']"

definition repeated_points :: "ustr list" where
  "repeated_points =
     [ascii ''pruning'', ascii ''quantization'', ascii ''distillation'', ascii ''caching'',
      ascii ''pruning'']"

text \<open>The claim set synthesized for Scenario A with either list of points.\<close>

definition claims_repeated :: "ustr list" where
  "claims_repeated =
     [ independent_claim (title scenario_a) solution_a,
       dependent_claim (title scenario_a) 2 (ascii ''pruning''),
       dependent_claim (title scenario_a) 3 (ascii ''quantization''),
       dependent_claim (title scenario_a) 4 (ascii ''distillation''),
       dependent_claim (title scenario_a) 5 (ascii ''caching''),
       system_claim ]"

text \<open>
  The disclosure with every required field empty, the technical solution among them
  (absent), and the default patent type.
\<close>

definition all_empty :: PatentDisclosure where
  "all_empty = deficient\<lparr>patent_type := ascii ''invention'', technical_solution := None\<rparr>"

text \<open>Two writers to run the pipeline with: one that raises, one that returns a draft.\<close>

definition failing_writer :: patent_writer where
  "failing_writer request applicant_info inventor_info = Inl WriterError"

definition sample_writer :: patent_writer where
  "sample_writer request applicant_info inventor_info =
     Inr \<lparr> app_title = ascii ''draft'',
           app_patent_type = req_patent_type request,
           applicant = applicant_info,
           app_inventors = inventor_info,
           app_technical_field = req_technical_field request,
           brief_description = [],
           invention_content = solution request \<rparr>"

section \<open>Properties of the validator\<close>

subsection \<open>Running the statements\<close>

lemma run_Nil [simp]: "run [] st = st"
  by (simp add: run_def)

lemma run_Cons [simp]: "run (f # fs) st = run fs (f st)"
  by (simp add: run_def)

lemma ascii_simps: "ascii [] = []" "ascii (c # cs) = of_char c # ascii cs"
  by (simp_all add: ascii_def)

lemma if_stmt_add_error [simp]:
  "v_score (if_stmt c (add_error m w) st) = v_score st - (if c then w else 0)"
  "v_errors (if_stmt c (add_error m w) st) = v_errors st @ (if c then [m] else [])"
  "v_warnings (if_stmt c (add_error m w) st) = v_warnings st"
  "v_suggestions (if_stmt c (add_error m w) st) = v_suggestions st"
  by (simp_all add: if_stmt_def add_error_def)

lemma if_stmt_add_warning [simp]:
  "v_score (if_stmt c (add_warning m w) st) = v_score st - (if c then w else 0)"
  "v_errors (if_stmt c (add_warning m w) st) = v_errors st"
  "v_warnings (if_stmt c (add_warning m w) st) = v_warnings st @ (if c then [m] else [])"
  "v_suggestions (if_stmt c (add_warning m w) st) = v_suggestions st"
  by (simp_all add: if_stmt_def add_warning_def)

lemma if_stmt_add_suggestion [simp]:
  "v_score (if_stmt c (add_suggestion m) st) = v_score st"
  "v_errors (if_stmt c (add_suggestion m) st) = v_errors st"
  "v_warnings (if_stmt c (add_suggestion m) st) = v_warnings st"
  by (simp_all add: if_stmt_def add_suggestion_def)

lemma add_error_proj [simp]:
  "v_score (add_error m w st) = v_score st - w"
  "v_errors (add_error m w st) = v_errors st @ [m]"
  "v_warnings (add_error m w st) = v_warnings st"
  by (simp_all add: add_error_def)

lemma v_init_proj [simp]:
  "v_score v_init = 100" "v_errors v_init = []" "v_warnings v_init = []" "v_suggestions v_init = []"
  by (simp_all add: v_init_def)

lemma field_checks_score:
  "v_score (field_checks d) =
     100 - penalty TitleCheck d - penalty InventorsCheck d - penalty ApplicantCheck d
     - penalty FieldCheck d - penalty BackgroundCheck d - penalty ProblemsCheck d
     - penalty SolutionCheck d - penalty OverviewCheck d - penalty EffectsCheck d
     - penalty EmbodimentsCheck d - penalty FiguresCheck d - penalty UtilityFiguresCheck d"
  by (cases "technical_solution d")
     (simp_all add: field_checks_def penalty_def split del: if_split cong: if_cong)

lemma field_checks_errors:
  "v_errors (field_checks d) =
     (if fails TitleCheck d then [msg_title_short] else [])
     @ (if fails InventorsCheck d then [msg_no_inventor] else [])
     @ (if fails ApplicantCheck d then [msg_no_applicant] else [])
     @ (if fails FieldCheck d then [msg_field_short] else [])
     @ (if fails BackgroundCheck d then [msg_background_short] else [])
     @ (if fails ProblemsCheck d then [msg_no_problem] else [])
     @ (if fails SolutionCheck d then [msg_no_solution] else [])
     @ (if fails OverviewCheck d then [msg_no_overview] else [])
     @ (if fails EffectsCheck d then [msg_no_effect] else [])
     @ (if fails UtilityFiguresCheck d then [msg_utility_figures] else [])"
  by (cases "technical_solution d")
     (simp_all add: field_checks_def split del: if_split cong: if_cong)

lemma field_checks_warnings:
  "v_warnings (field_checks d) =
     (if fails EmbodimentsCheck d then [msg_no_embodiment] else [])
     @ (if fails FiguresCheck d then [msg_no_figures] else [])"
  by (cases "technical_solution d")
     (simp_all add: field_checks_def split del: if_split cong: if_cong)

lemma validate_checks_Some:
  assumes "technical_solution d = Some s"
  shows "\<exists>st. validate_checks d = Inr st \<and> v_errors st = v_errors (field_checks d)
           \<and> v_warnings st = v_warnings (field_checks d) \<and> v_score st = v_score (field_checks d)"
  using assms by (simp add: validate_checks_def suggestion_checks_def)

lemma validate_checks_None:
  "technical_solution d = None \<Longrightarrow> validate_checks d = Inl AttributeError"
  by (simp add: validate_checks_def suggestion_checks_def)

lemma validate_disclosure_None:
  "technical_solution d = None \<Longrightarrow> validate_disclosure d = Inl AttributeError"
  by (simp add: validate_disclosure_def validate_checks_None)

lemma validate_disclosure_Inr:
  assumes "validate_disclosure d = Inr r"
  shows "\<exists>s st. technical_solution d = Some s \<and> validate_checks d = Inr st \<and> r = make_result st
           \<and> v_errors st = v_errors (field_checks d)
           \<and> v_warnings st = v_warnings (field_checks d) \<and> v_score st = v_score (field_checks d)"
proof (cases "technical_solution d")
  case None
  with assms show ?thesis by (simp add: validate_disclosure_None)
next
  case (Some s)
  from validate_checks_Some [OF Some] obtain st where st: "validate_checks d = Inr st"
    "v_errors st = v_errors (field_checks d)" "v_warnings st = v_warnings (field_checks d)"
    "v_score st = v_score (field_checks d)" by blast
  with assms have "r = make_result st" by (simp add: validate_disclosure_def)
  with Some st show ?thesis by blast
qed

lemma validate_disclosure_Some:
  assumes "technical_solution d = Some s"
  shows "\<exists>r. validate_disclosure d = Inr r"
  using validate_checks_Some [OF assms] by (auto simp add: validate_disclosure_def)

lemma penalty_mono: "(fails c d2 \<longrightarrow> fails c d1) \<Longrightarrow> penalty c d2 \<le> penalty c d1"
  by (cases c) (auto simp add: penalty_def)

subsection \<open>The validator on the examples\<close>

lemma validate_scenario_a: "validate_disclosure scenario_a = Inr result_a"
  by (simp add: validate_disclosure_def validate_checks_def suggestion_checks_def field_checks_def
     scenario_a_def solution_a_def result_a_def make_result_def strip_def is_space_def
     if_stmt_def add_error_def add_warning_def add_suggestion_def v_init_def ascii_simps)

lemma validate_scenario_b: "validate_disclosure scenario_b = Inr result_b"
  by (simp add: validate_disclosure_def validate_checks_def suggestion_checks_def field_checks_def
     scenario_a_def scenario_b_def solution_a_def result_b_def make_result_def strip_def is_space_def
     if_stmt_def add_error_def add_warning_def add_suggestion_def v_init_def ascii_simps)

lemma validate_scenario_a_embodiment:
  "validate_disclosure (scenario_a\<lparr>embodiments := [ascii ''a camera at a gate'']\<rparr>)
     = Inr (result_a\<lparr>warnings := [msg_no_figures], completeness_score := 95\<rparr>)"
  by (simp add: validate_disclosure_def validate_checks_def suggestion_checks_def field_checks_def
     scenario_a_def solution_a_def result_a_def make_result_def strip_def is_space_def
     if_stmt_def add_error_def add_warning_def add_suggestion_def v_init_def ascii_simps)

lemma validate_checks_deficient:
  "validate_checks deficient =
     Inr \<lparr> v_errors = [msg_title_short, msg_no_inventor, msg_no_applicant, msg_field_short,
                       msg_background_short, msg_no_problem, msg_no_overview, msg_no_effect,
                       msg_utility_figures],
           v_warnings = [msg_no_embodiment, msg_no_figures],
           v_suggestions = [sug_innovation, sug_prior_art, sug_email],
           v_score = - 10 \<rparr>"
  by (simp add: validate_checks_def suggestion_checks_def field_checks_def
     deficient_def strip_def if_stmt_def add_error_def add_warning_def add_suggestion_def v_init_def
     ascii_simps)

lemma validate_deficient: "validate_disclosure deficient = Inr result_deficient"
  by (simp add: validate_disclosure_def validate_checks_deficient make_result_def
     result_deficient_def)

lemma scenario_b_invention: "scenario_b\<lparr>patent_type := ascii ''invention''\<rparr> = scenario_a"
  by (simp add: scenario_b_def scenario_a_def)

subsection \<open>An absent technical solution\<close>

text \<open>
  Claim C3: for a structurally incomplete disclosure, in particular one whose technical
  solution is absent, \<open>validate_disclosure\<close> returns a result that reports the absence as
  a blocking error and never raises.

  The code does not do this. On Scenario A with the solution set to \<open>None\<close> the check of
  line 98 records the error "technical solution must not be empty", and then line 123
  reads \<open>innovation_points\<close> of \<open>None\<close>: the call raises \<open>AttributeError\<close> and no result is
  returned.
\<close>

theorem validate_raises_on_absent_solution:
  "technical_solution no_solution = None
   \<and> v_errors (field_checks no_solution) = [msg_no_solution]
   \<and> validate_disclosure no_solution = Inl AttributeError"
  by (simp add: validate_disclosure_def validate_checks_def suggestion_checks_def field_checks_def
     no_solution_def scenario_a_def strip_def is_space_def
     if_stmt_def add_error_def add_warning_def v_init_def ascii_simps)

subsection \<open>Validity and errors\<close>

text \<open>
  Claim C5: the result that \<open>validate_disclosure\<close> returns has \<open>is_valid\<close> true if and
  only if its list of errors is empty; warnings and suggestions never influence
  \<open>is_valid\<close>: any other returned result with the same errors has the same \<open>is_valid\<close>,
  whatever its warnings and suggestions.
\<close>

theorem is_valid_iff_no_errors:
  assumes "validate_disclosure d = Inr r"
  shows "(is_valid r \<longleftrightarrow> errors r = [])
         \<and> (\<forall>d' r'. validate_disclosure d' = Inr r' \<and> errors r' = errors r
               \<longrightarrow> is_valid r' = is_valid r)"
proof -
  have iff: "is_valid r' \<longleftrightarrow> errors r' = []" if "validate_disclosure d' = Inr r'" for d' r'
  proof -
    from validate_disclosure_Inr [OF that] obtain st where "r' = make_result st" by blast
    then show ?thesis by (simp add: make_result_def)
  qed
  show ?thesis using iff [OF assms] iff by auto
qed

theorem is_valid_iff_no_errors_witness:
  "validate_disclosure scenario_a = Inr result_a
   \<and> warnings result_a \<noteq> [] \<and> suggestions result_a \<noteq> []
   \<and> (is_valid result_a \<longleftrightarrow> errors result_a = [])
   \<and> validate_disclosure (scenario_a\<lparr>embodiments := [ascii ''a camera at a gate'']\<rparr>)
       = Inr (result_a\<lparr>warnings := [msg_no_figures], completeness_score := 95\<rparr>)
   \<and> errors (result_a\<lparr>warnings := [msg_no_figures], completeness_score := 95\<rparr>) = errors result_a
   \<and> warnings (result_a\<lparr>warnings := [msg_no_figures], completeness_score := 95\<rparr>)
       \<noteq> warnings result_a
   \<and> is_valid (result_a\<lparr>warnings := [msg_no_figures], completeness_score := 95\<rparr>)
       = is_valid result_a"
proof -
  let ?r' = "result_a\<lparr>warnings := [msg_no_figures], completeness_score := 95\<rparr>"
  have same: "errors ?r' = errors result_a" by simp
  from is_valid_iff_no_errors [OF validate_scenario_a] validate_scenario_a_embodiment same
  have "(is_valid result_a \<longleftrightarrow> errors result_a = []) \<and> is_valid ?r' = is_valid result_a"
    by blast
  then show ?thesis
    using validate_scenario_a validate_scenario_a_embodiment by (simp add: result_a_def)
qed

subsection \<open>The range of the score\<close>

text \<open>
  Whenever the validator returns a result, line 133 has clamped its score: it lies between
  0 and 100.
\<close>

lemma score_in_range:
  assumes "validate_disclosure d = Inr r"
  shows "0 \<le> completeness_score r \<and> completeness_score r \<le> 100"
proof -
  from validate_disclosure_Inr [OF assms] obtain st where "r = make_result st" by blast
  then show ?thesis by (simp add: make_result_def)
qed

text \<open>
  So it is for the disclosure with every checked field empty and the solution present but
  without overview: the weights subtracted from 100 leave - 10, and the score returned is 0.
\<close>

lemma score_of_deficient:
  "validate_disclosure deficient = Inr result_deficient
   \<and> map_sum id v_score (validate_checks deficient) = Inr (- 10)
   \<and> completeness_score result_deficient = 0"
  by (simp add: validate_deficient validate_checks_deficient result_deficient_def)

text \<open>
  Claim C6: the completeness score that \<open>validate_disclosure\<close> returns lies between 0 and
  100 for every disclosure, also for the maximally deficient one, with all required fields
  empty, whose weights sum to more than 100.

  The code does not do this on that very disclosure. The technical solution is a required
  field, and it is empty when it is absent. With every required field empty the checks of
  lines 74 to 120 bring the running score to - 5 (to - 15 for a utility model), and then
  line 123 reads \<open>innovation_points\<close> of \<open>None\<close>: the call raises \<open>AttributeError\<close> before
  the clamp of line 133 is reached, and no score is returned.
\<close>

theorem no_score_when_all_fields_empty:
  "technical_solution all_empty = None
   \<and> v_score (field_checks all_empty) = - 5
   \<and> validate_disclosure all_empty = Inl AttributeError
   \<and> v_score (field_checks (all_empty\<lparr>patent_type := ascii ''utility_model''\<rparr>)) = - 15
   \<and> validate_disclosure (all_empty\<lparr>patent_type := ascii ''utility_model''\<rparr>)
       = Inl AttributeError"
  by (simp add: validate_disclosure_def validate_checks_def suggestion_checks_def field_checks_def
     all_empty_def deficient_def strip_def ascii_simps)

subsection \<open>Arithmetic of the score\<close>

lemma clamp_shift:
  fixes x :: real
  assumes "x \<le> 100"
  shows "max 0 (min 100 (x - 10)) = max 0 (max 0 (min 100 x) - 10)"
  using assms by auto

lemma field_checks_score_le: "v_score (field_checks d) \<le> 100"
proof -
  have "0 \<le> penalty c d" for c by (cases c) (simp_all add: penalty_def)
  from this [of TitleCheck] this [of InventorsCheck] this [of ApplicantCheck] this [of FieldCheck]
    this [of BackgroundCheck] this [of ProblemsCheck] this [of SolutionCheck]
    this [of OverviewCheck] this [of EffectsCheck] this [of EmbodimentsCheck]
    this [of FiguresCheck] this [of UtilityFiguresCheck]
  show ?thesis unfolding field_checks_score by linarith
qed

lemma ascii_invention_neq: "ascii ''invention'' \<noteq> ascii ''utility_model''"
  by (simp add: ascii_simps)

subsection \<open>A utility model without figures\<close>

text \<open>
  Claim C7: for a disclosure of type \<open>utility_model\<close> with no figure descriptions,
  \<open>validate_disclosure\<close> applies both the generic penalty for missing figures (5) and the
  penalty of the utility model rule (10): the score before clamping is 15 below that of the
  same disclosure with figures. The errors include the utility model error, the warnings
  the generic one, and \<open>is_valid\<close> is false. The score is 10 below (and not below 0) that
  of the same disclosure as an invention; in particular 80 where that one scores 90.
\<close>

theorem utility_model_without_figures:
  assumes ut: "patent_type d = ascii ''utility_model''"
    and nf: "figure_descriptions d = []"
    and v: "validate_disclosure d = Inr r"
  shows "msg_utility_figures \<in> set (errors r) \<and> msg_no_figures \<in> set (warnings r)
         \<and> \<not> is_valid r
         \<and> (\<forall>fs. fs \<noteq> [] \<longrightarrow>
               (\<exists>st st'. validate_checks d = Inr st
                  \<and> validate_checks (d\<lparr>figure_descriptions := fs\<rparr>) = Inr st'
                  \<and> v_score st = v_score st' - 5 - 10))
         \<and> (\<exists>r'. validate_disclosure (d\<lparr>patent_type := ascii ''invention''\<rparr>) = Inr r'
               \<and> completeness_score r = max 0 (completeness_score r' - 10)
               \<and> (completeness_score r' = 90 \<longrightarrow> completeness_score r = 80))"
proof -
  from validate_disclosure_Inr [OF v] obtain s st where s: "technical_solution d = Some s"
    and st: "validate_checks d = Inr st" and r: "r = make_result st"
    and e: "v_errors st = v_errors (field_checks d)"
    and w: "v_warnings st = v_warnings (field_checks d)"
    and sc: "v_score st = v_score (field_checks d)" by blast
  have f1: "fails UtilityFiguresCheck d" and f2: "fails FiguresCheck d" using ut nf by simp_all
  have errs: "msg_utility_figures \<in> set (errors r)"
    using f1 by (simp add: r make_result_def e field_checks_errors)
  have warns: "msg_no_figures \<in> set (warnings r)"
    using f2 by (simp add: r make_result_def w field_checks_warnings)
  have inval: "\<not> is_valid r"
    using f1 by (simp add: r make_result_def e field_checks_errors)
  have both: "\<exists>st st'. validate_checks d = Inr st
      \<and> validate_checks (d\<lparr>figure_descriptions := fs\<rparr>) = Inr st'
      \<and> v_score st = v_score st' - 5 - 10" if fs: "fs \<noteq> []" for fs
  proof -
    let ?d' = "d\<lparr>figure_descriptions := fs\<rparr>"
    have "technical_solution ?d' = Some s" using s by simp
    from validate_checks_Some [OF this] obtain st' where st': "validate_checks ?d' = Inr st'"
      and sc': "v_score st' = v_score (field_checks ?d')" by blast
    have "v_score (field_checks d) = v_score (field_checks ?d') - 5 - 10"
      unfolding field_checks_score using ut nf fs by (simp add: penalty_def)
    with st st' sc sc' show ?thesis by simp
  qed
  let ?d' = "d\<lparr>patent_type := ascii ''invention''\<rparr>"
  have "technical_solution ?d' = Some s" using s by simp
  from validate_checks_Some [OF this] obtain st' where st': "validate_checks ?d' = Inr st'"
    and sc': "v_score st' = v_score (field_checks ?d')" by blast
  have v': "validate_disclosure ?d' = Inr (make_result st')"
    by (simp add: validate_disclosure_def st')
  have diff: "v_score (field_checks d) = v_score (field_checks ?d') - 10"
    unfolding field_checks_score using ut nf ascii_invention_neq by (simp add: penalty_def)
  have eq: "completeness_score r = max 0 (completeness_score (make_result st') - 10)"
    using clamp_shift [OF field_checks_score_le [of ?d']]
    by (simp add: r make_result_def sc sc' diff)
  then have "completeness_score (make_result st') = 90 \<longrightarrow> completeness_score r = 80"
    by simp
  with v' eq have last: "\<exists>r'. validate_disclosure ?d' = Inr r'
      \<and> completeness_score r = max 0 (completeness_score r' - 10)
      \<and> (completeness_score r' = 90 \<longrightarrow> completeness_score r = 80)" by blast
  from errs warns inval both last show ?thesis by blast
qed

theorem utility_model_without_figures_witness:
  "patent_type scenario_b = ascii ''utility_model'' \<and> figure_descriptions scenario_b = []
   \<and> validate_disclosure scenario_b = Inr result_b
   \<and> validate_disclosure (scenario_b\<lparr>patent_type := ascii ''invention''\<rparr>) = Inr result_a
   \<and> completeness_score result_a = 90 \<and> completeness_score result_b = 80
   \<and> msg_utility_figures \<in> set (errors result_b) \<and> msg_no_figures \<in> set (warnings result_b)
   \<and> \<not> is_valid result_b
   \<and> map_sum id v_score (validate_checks scenario_b) = Inr 80
   \<and> map_sum id v_score
         (validate_checks (scenario_b\<lparr>figure_descriptions := [ascii ''Figure 1: the network'']\<rparr>))
       = Inr 95"
proof -
  have ut: "patent_type scenario_b = ascii ''utility_model''"
    by (simp add: scenario_b_def)
  have nf: "figure_descriptions scenario_b = []"
    by (simp add: scenario_b_def scenario_a_def)
  from utility_model_without_figures [OF ut nf validate_scenario_b]
  have "msg_utility_figures \<in> set (errors result_b) \<and> msg_no_figures \<in> set (warnings result_b)
    \<and> \<not> is_valid result_b" by blast
  moreover have "map_sum id v_score (validate_checks scenario_b) = Inr 80"
    by (simp add: validate_checks_def suggestion_checks_def field_checks_def
        scenario_a_def scenario_b_def solution_a_def strip_def is_space_def ascii_simps)
  moreover have "map_sum id v_score
      (validate_checks (scenario_b\<lparr>figure_descriptions := [ascii ''Figure 1: the network'']\<rparr>))
      = Inr 95"
    by (simp add: validate_checks_def suggestion_checks_def field_checks_def
        scenario_a_def scenario_b_def solution_a_def strip_def is_space_def ascii_simps)
  ultimately show ?thesis using ut nf validate_scenario_b validate_scenario_a
    by (simp add: scenario_b_invention result_a_def result_b_def)
qed

subsection \<open>Monotonicity of the score\<close>

text \<open>
  Claim C9: of two disclosures that differ only in that the second satisfies one more
  checked field, the second scores at least as much as the first. Stated for any second
  disclosure that fails no check the first one passes, and for the example of the claim:
  the first disclosure with a non-empty list of embodiments put in.
\<close>

theorem score_monotone:
  assumes v1: "validate_disclosure d1 = Inr r1"
  shows "(\<forall>d2 r2. validate_disclosure d2 = Inr r2 \<and> (\<forall>c. fails c d2 \<longrightarrow> fails c d1)
            \<longrightarrow> completeness_score r1 \<le> completeness_score r2)
         \<and> (\<forall>e. e \<noteq> [] \<longrightarrow>
              (\<exists>r2. validate_disclosure (d1\<lparr>embodiments := e\<rparr>) = Inr r2
                 \<and> completeness_score r1 \<le> completeness_score r2))"
proof -
  from validate_disclosure_Inr [OF v1] obtain s1 st1 where s1: "technical_solution d1 = Some s1"
    and r1: "r1 = make_result st1" and sc1: "v_score st1 = v_score (field_checks d1)" by blast
  have gen: "completeness_score r1 \<le> completeness_score r2"
    if v2: "validate_disclosure d2 = Inr r2" and sub: "\<forall>c. fails c d2 \<longrightarrow> fails c d1" for d2 r2
  proof -
    from validate_disclosure_Inr [OF v2] obtain st2 where
      r2: "r2 = make_result st2" and sc2: "v_score st2 = v_score (field_checks d2)" by blast
    have p: "penalty c d2 \<le> penalty c d1" for c using sub by (simp add: penalty_mono)
    from p [of TitleCheck] p [of InventorsCheck] p [of ApplicantCheck] p [of FieldCheck]
      p [of BackgroundCheck] p [of ProblemsCheck] p [of SolutionCheck]
      p [of OverviewCheck] p [of EffectsCheck] p [of EmbodimentsCheck]
      p [of FiguresCheck] p [of UtilityFiguresCheck]
    have "v_score (field_checks d1) \<le> v_score (field_checks d2)"
      unfolding field_checks_score by linarith
    then show ?thesis by (simp add: r1 r2 make_result_def sc1 sc2)
  qed
  have emb: "\<exists>r2. validate_disclosure (d1\<lparr>embodiments := e\<rparr>) = Inr r2
      \<and> completeness_score r1 \<le> completeness_score r2" if e: "e \<noteq> []" for e
  proof -
    let ?d2 = "d1\<lparr>embodiments := e\<rparr>"
    have "technical_solution ?d2 = Some s1" using s1 by simp
    from validate_disclosure_Some [OF this] obtain r2 where v2: "validate_disclosure ?d2 = Inr r2"
      by blast
    have "fails c ?d2 \<longrightarrow> fails c d1" for c using e by (cases c) simp_all
    then have "\<forall>c. fails c ?d2 \<longrightarrow> fails c d1" by blast
    from gen [OF v2 this] v2 show ?thesis by blast
  qed
  from gen emb show ?thesis by blast
qed

theorem score_monotone_witness:
  "validate_disclosure scenario_a = Inr result_a
   \<and> validate_disclosure (scenario_a\<lparr>embodiments := [ascii ''a camera at a gate'']\<rparr>)
       = Inr (result_a\<lparr>warnings := [msg_no_figures], completeness_score := 95\<rparr>)
   \<and> fails EmbodimentsCheck scenario_a
   \<and> \<not> fails EmbodimentsCheck (scenario_a\<lparr>embodiments := [ascii ''a camera at a gate'']\<rparr>)
   \<and> completeness_score result_a
       \<le> completeness_score (result_a\<lparr>warnings := [msg_no_figures], completeness_score := 95\<rparr>)"
proof -
  let ?d2 = "scenario_a\<lparr>embodiments := [ascii ''a camera at a gate'']\<rparr>"
  let ?r2 = "result_a\<lparr>warnings := [msg_no_figures], completeness_score := 95\<rparr>"
  have sub: "\<forall>c. fails c ?d2 \<longrightarrow> fails c scenario_a"
  proof
    fix c show "fails c ?d2 \<longrightarrow> fails c scenario_a" by (cases c) simp_all
  qed
  from score_monotone [OF validate_scenario_a] validate_scenario_a_embodiment sub
  have "completeness_score result_a \<le> completeness_score ?r2" by blast
  moreover have "fails EmbodimentsCheck scenario_a" by (simp add: scenario_a_def)
  ultimately show ?thesis
    using validate_scenario_a validate_scenario_a_embodiment sub by simp
qed

section \<open>Properties of the claim synthesizer\<close>

lemma str_of_nat_digit: "n < 10 \<Longrightarrow> str_of_nat n = [48 + n]"
  by (simp add: str_of_nat.simps)

lemma generate_claims_Some:
  "technical_solution d = Some s \<Longrightarrow>
     generate_claims_from_disclosure d
       = Inr (independent_claim (title d) s # dependent_claims (title d) s @ [system_claim])"
  by (simp add: generate_claims_from_disclosure_def)

lemma length_dependent_claims:
  "length (dependent_claims t s)
     = (if innovation_points s = [] then 3 else min (length (innovation_points s)) 4)"
  by (simp add: dependent_claims_def fallback_claims_def)

lemma independent_claim_points [simp]:
  "independent_claim t (s\<lparr>innovation_points := ps\<rparr>) = independent_claim t s"
  by (simp add: independent_claim_def)

lemma four_or_more:
  assumes "4 \<le> length xs"
  shows "\<exists>a b c e rest. xs = a # b # c # e # rest"
  using assms by (auto simp add: numeral_eq_Suc Suc_le_length_iff)

lemma enumerate_four:
  "enumerate n [a, b, c, e] = [(n, a), (Suc n, b), (Suc (Suc n), c), (Suc (Suc (Suc n)), e)]"
  by simp

subsection \<open>The number of claims\<close>

text \<open>
  Claim C1, as amended: for every disclosure that the validator accepts, the claim
  synthesizer returns one independent claim, then the dependent claims, then one system
  claim. There are three dependent claims when there are no innovation points, and one per
  innovation point up to four otherwise. So the set has at least three claims, and at
  least five exactly when there are no innovation points or at least three of them.
\<close>

theorem claim_count:
  assumes v: "validate_disclosure d = Inr r" and ok: "is_valid r"
  shows "\<exists>s cs. technical_solution d = Some s
           \<and> generate_claims_from_disclosure d = Inr cs
           \<and> cs = independent_claim (title d) s # dependent_claims (title d) s @ [system_claim]
           \<and> length (dependent_claims (title d) s)
               = (if innovation_points s = [] then 3 else min (length (innovation_points s)) 4)
           \<and> 3 \<le> length cs
           \<and> (5 \<le> length cs
                \<longleftrightarrow> innovation_points s = [] \<or> 3 \<le> length (innovation_points s))"
proof -
  from validate_disclosure_Inr [OF v] obtain s where s: "technical_solution d = Some s" by blast
  let ?cs = "independent_claim (title d) s # dependent_claims (title d) s @ [system_claim]"
  have len: "length (dependent_claims (title d) s)
      = (if innovation_points s = [] then 3 else min (length (innovation_points s)) 4)"
    by (rule length_dependent_claims)
  have l3: "3 \<le> length ?cs"
    using len by (cases "innovation_points s") simp_all
  have l5: "5 \<le> length ?cs \<longleftrightarrow> innovation_points s = [] \<or> 3 \<le> length (innovation_points s)"
    using len by (cases "innovation_points s") auto
  from s generate_claims_Some [OF s] len l3 l5 show ?thesis by blast
qed

lemma validate_one_point:
  "validate_disclosure (with_points [ascii ''faster training''])
     = Inr (result_a\<lparr>suggestions := [sug_prior_art, sug_email]\<rparr>)"
  by (simp add: validate_disclosure_def validate_checks_def suggestion_checks_def field_checks_def
     with_points_def scenario_a_def solution_a_def result_a_def make_result_def strip_def is_space_def
     if_stmt_def add_error_def add_warning_def add_suggestion_def v_init_def ascii_simps)

text \<open>
  Claim C1 as stated (at least five claims for every accepted disclosure) fails on Scenario
  A with a single innovation point: the validator accepts it with no error, and the
  synthesizer returns three claims.
\<close>

theorem claim_count_counterexample:
  "map_sum id is_valid (validate_disclosure (with_points [ascii ''faster training''])) = Inr True
   \<and> map_sum id errors (validate_disclosure (with_points [ascii ''faster training''])) = Inr []
   \<and> map_sum id length (generate_claims_from_disclosure (with_points [ascii ''faster training'']))
       = Inr 3"
proof -
  have "map_sum id length
      (generate_claims_from_disclosure (with_points [ascii ''faster training''])) = Inr 3"
    by (simp add: generate_claims_from_disclosure_def with_points_def dependent_claims_def)
  then show ?thesis by (simp add: validate_one_point result_a_def)
qed

theorem claim_count_witness:
  "validate_disclosure scenario_a = Inr result_a \<and> is_valid result_a
   \<and> map_sum id length (generate_claims_from_disclosure scenario_a) = Inr 5
   \<and> validate_disclosure (with_points [ascii ''faster training''])
       = Inr (result_a\<lparr>suggestions := [sug_prior_art, sug_email]\<rparr>)
   \<and> is_valid (result_a\<lparr>suggestions := [sug_prior_art, sug_email]\<rparr>)
   \<and> map_sum id length (generate_claims_from_disclosure (with_points [ascii ''faster training'']))
       = Inr 3"
proof -
  have ok: "is_valid result_a" by (simp add: result_a_def)
  have ok1: "is_valid (result_a\<lparr>suggestions := [sug_prior_art, sug_email]\<rparr>)"
    by (simp add: result_a_def)
  from claim_count [OF validate_scenario_a ok] obtain s cs where
    a: "technical_solution scenario_a = Some s"
       "generate_claims_from_disclosure scenario_a = Inr cs"
       "5 \<le> length cs \<longleftrightarrow> innovation_points s = [] \<or> 3 \<le> length (innovation_points s)"
       "length (dependent_claims (title scenario_a) s)
          = (if innovation_points s = [] then 3 else min (length (innovation_points s)) 4)"
       "cs = independent_claim (title scenario_a) s # dependent_claims (title scenario_a) s @ [system_claim]"
    by blast
  from a(1) have "s = solution_a" by (simp add: scenario_a_def)
  with a have la: "map_sum id length (generate_claims_from_disclosure scenario_a) = Inr 5"
    by (simp add: solution_a_def)
  from claim_count [OF validate_one_point ok1] obtain s1 cs1 where
    b: "technical_solution (with_points [ascii ''faster training'']) = Some s1"
       "generate_claims_from_disclosure (with_points [ascii ''faster training'']) = Inr cs1"
       "length (dependent_claims (title (with_points [ascii ''faster training''])) s1)
          = (if innovation_points s1 = [] then 3 else min (length (innovation_points s1)) 4)"
       "cs1 = independent_claim (title (with_points [ascii ''faster training''])) s1
              # dependent_claims (title (with_points [ascii ''faster training''])) s1 @ [system_claim]"
    by blast
  from b(1) have "innovation_points s1 = [ascii ''faster training'']"
    by (auto simp add: with_points_def)
  with b have lb: "map_sum id length
      (generate_claims_from_disclosure (with_points [ascii ''faster training''])) = Inr 3"
    by simp
  from validate_scenario_a ok la validate_one_point ok1 lb show ?thesis by simp
qed

subsection \<open>The numbers of the claims\<close>

text \<open>
  Claim C2: the claims returned are numbered contiguously from 1, and the last claim is
  the one system claim, which refers to the claims 1 to N, where N is the number of the
  last dependent claim.

  The code does not do this: the system claim is a literal with the number 5 and the range
  1-4. With four innovation points the claims are numbered 1, 2, 3, 4, 5, 5, and the
  system claim refers to the claims 1-4 though the last dependent claim is claim 5; with
  one innovation point they are numbered 1, 2, 5.
\<close>

theorem claim_numbers_not_contiguous:
  "map_sum id (map claim_number) (generate_claims_from_disclosure (with_points four_points))
     = Inr [ascii ''1'', ascii ''2'', ascii ''3'', ascii ''4'', ascii ''5'', ascii ''5'']
   \<and> map_sum id last (generate_claims_from_disclosure (with_points four_points))
       = Inr (ascii ''5. '' @ lit_system_a @ ascii ''1-4'' @ lit_system_b)
   \<and> map_sum id (map claim_number)
        (generate_claims_from_disclosure (with_points [ascii ''faster training'']))
       = Inr [ascii ''1'', ascii ''2'', ascii ''5'']"
  by (simp add: generate_claims_from_disclosure_def with_points_def four_points_def
      dependent_claims_def dependent_claim_def independent_claim_def system_claim_def
      claim_number_def str_of_nat_digit ascii_simps)

subsection \<open>The cap on innovation points\<close>

lemma dependent_claims_cap:
  assumes "4 \<le> length (innovation_points s)"
  shows "dependent_claims t s =
     [ dependent_claim t 2 (innovation_points s ! 0), dependent_claim t 3 (innovation_points s ! 1),
       dependent_claim t 4 (innovation_points s ! 2), dependent_claim t 5 (innovation_points s ! 3) ]"
proof -
  from four_or_more [OF assms] obtain a b c e rest
    where ps: "innovation_points s = a # b # c # e # rest" by blast
  have "enumerate 2 [a, b, c, e] = [(2, a), (3, b), (4, c), (5, e)]"
    unfolding enumerate_four by (simp add: numeral_eq_Suc)
  then show ?thesis by (simp add: dependent_claims_def ps)
qed

lemma dependent_claims_later:
  assumes "4 \<le> length (innovation_points s)"
  shows "dependent_claims t (s\<lparr>innovation_points := take 4 (innovation_points s) @ later\<rparr>)
           = dependent_claims t s"
proof -
  from four_or_more [OF assms] obtain a b c e rest
    where ps: "innovation_points s = a # b # c # e # rest" by blast
  show ?thesis by (simp add: dependent_claims_def ps)
qed

text \<open>
  Claim C8, as amended: for every disclosure whose solution has five or more innovation
  points, the synthesizer derives exactly four dependent claims, from the points 1 to 4 in
  order and numbered 2 to 5, and no claim is derived from a later point: the claim set is
  the same whatever points follow the fourth, also when none does.
\<close>

theorem innovation_cap:
  assumes s: "technical_solution d = Some s" and n: "5 \<le> length (innovation_points s)"
  shows "generate_claims_from_disclosure d
           = Inr (independent_claim (title d) s # dependent_claims (title d) s @ [system_claim])
         \<and> dependent_claims (title d) s =
             [ dependent_claim (title d) 2 (innovation_points s ! 0),
               dependent_claim (title d) 3 (innovation_points s ! 1),
               dependent_claim (title d) 4 (innovation_points s ! 2),
               dependent_claim (title d) 5 (innovation_points s ! 3) ]
         \<and> (\<forall>later. generate_claims_from_disclosure
               (d\<lparr>technical_solution :=
                    Some (s\<lparr>innovation_points := take 4 (innovation_points s) @ later\<rparr>)\<rparr>)
              = generate_claims_from_disclosure d)"
proof -
  from n have n4: "4 \<le> length (innovation_points s)" by simp
  have "generate_claims_from_disclosure
          (d\<lparr>technical_solution :=
               Some (s\<lparr>innovation_points := take 4 (innovation_points s) @ later\<rparr>)\<rparr>)
        = generate_claims_from_disclosure d" for later
    using dependent_claims_later [OF n4]
    by (simp add: generate_claims_from_disclosure_def s)
  with generate_claims_Some [OF s] dependent_claims_cap [OF n4] show ?thesis by blast
qed

lemma generate_claims_repeated:
  "generate_claims_from_disclosure (with_points repeated_points) = Inr claims_repeated"
proof -
  have s: "technical_solution (with_points repeated_points)
             = Some (solution_a\<lparr>innovation_points := repeated_points\<rparr>)"
    by (simp add: with_points_def)
  have n: "4 \<le> length (innovation_points (solution_a\<lparr>innovation_points := repeated_points\<rparr>))"
    by (simp add: repeated_points_def)
  have t: "title (with_points repeated_points) = title scenario_a"
    by (simp add: with_points_def)
  show ?thesis
    unfolding generate_claims_Some [OF s] dependent_claims_cap [OF n] t
    by (simp add: claims_repeated_def repeated_points_def)
qed

text \<open>
  Claim C8 as stated (the text of the fifth and later points appears in no claim) fails when
  a later point repeats text that the claims hold for another reason: with five points of
  which the fifth repeats the first, the text of the fifth point stands in claim 2.
\<close>

theorem innovation_cap_counterexample:
  "length repeated_points = 5
   \<and> generate_claims_from_disclosure (with_points repeated_points) = Inr claims_repeated
   \<and> claims_repeated ! 1
       = ascii ''2. '' @ lit_according @ title scenario_a @ lit_characterized
         @ repeated_points ! 4 @ lit_stop
   \<and> sublist (repeated_points ! 4) (claims_repeated ! 1)"
proof -
  have c: "claims_repeated ! 1
       = (ascii ''2. '' @ lit_according @ title scenario_a @ lit_characterized)
         @ repeated_points ! 4 @ lit_stop"
    by (simp add: claims_repeated_def repeated_points_def dependent_claim_def str_of_nat_digit
        ascii_simps)
  have "sublist (repeated_points ! 4) (claims_repeated ! 1)"
    unfolding c by (rule sublist_appendI)
  with c generate_claims_repeated show ?thesis by (simp add: repeated_points_def)
qed

theorem innovation_cap_witness:
  "technical_solution (with_points repeated_points)
     = Some (solution_a\<lparr>innovation_points := repeated_points\<rparr>)
   \<and> 5 \<le> length (innovation_points (solution_a\<lparr>innovation_points := repeated_points\<rparr>))
   \<and> generate_claims_from_disclosure (with_points repeated_points) = Inr claims_repeated
   \<and> generate_claims_from_disclosure (with_points four_points) = Inr claims_repeated
   \<and> length claims_repeated = 6"
proof -
  let ?s = "solution_a\<lparr>innovation_points := repeated_points\<rparr>"
  have s: "technical_solution (with_points repeated_points) = Some ?s"
    by (simp add: with_points_def)
  have n: "5 \<le> length (innovation_points ?s)" by (simp add: repeated_points_def)
  from innovation_cap [OF s n]
  have "generate_claims_from_disclosure
          ((with_points repeated_points)\<lparr>technical_solution :=
               Some (?s\<lparr>innovation_points := take 4 (innovation_points ?s) @ []\<rparr>)\<rparr>)
        = generate_claims_from_disclosure (with_points repeated_points)" by blast
  moreover have "(with_points repeated_points)\<lparr>technical_solution :=
               Some (?s\<lparr>innovation_points := take 4 (innovation_points ?s) @ []\<rparr>)\<rparr>
      = with_points four_points"
    by (simp add: with_points_def repeated_points_def four_points_def)
  ultimately have "generate_claims_from_disclosure (with_points four_points) = Inr claims_repeated"
    using generate_claims_repeated by simp
  with s n generate_claims_repeated show ?thesis by (simp add: claims_repeated_def)
qed

section \<open>Properties of the pipeline\<close>

text \<open>
  Claim C4: for every disclosure that validation finds invalid, \<open>process_disclosure\<close>
  with validation enabled returns no application together with the validation result, and
  \<open>generate_enhanced_patent\<close> returns the report of its errors and warnings. The
  document is not assembled: the writer is a parameter, and the results are the same for
  every writer, also one that raises on every call.
\<close>

theorem invalid_disclosure_is_not_assembled:
  assumes "validate_disclosure d = Inr r" and "\<not> is_valid r"
  shows "process_disclosure writer d True = Inr (None, Some r)
         \<and> generate_enhanced_patent writer d = Inr (failure_report (Some r))"
  using assms by (simp add: process_disclosure_def generate_enhanced_patent_def)

text \<open>
  For contrast: a disclosure that the validator accepts does reach the writer, and when
  the writer returns an application, the enhanced pipeline returns a document.
\<close>

lemma valid_disclosure_reaches_writer:
  "process_disclosure failing_writer scenario_a True = Inl WriterError"
proof -
  have "technical_solution scenario_a = Some solution_a" by (simp add: scenario_a_def)
  then have "assemble_application failing_writer scenario_a = Inl WriterError"
    by (simp add: assemble_application_def disclosure_to_patent_request_def failing_writer_def)
  then show ?thesis
    by (simp add: process_disclosure_def validate_scenario_a result_a_def)
qed

lemma valid_disclosure_is_assembled:
  assumes v: "validate_disclosure d = Inr r" and ok: "is_valid r"
    and rq: "disclosure_to_patent_request d = Inr request"
    and w: "writer request (applicant_info_of d) (inventor_info_of d) = Inr application"
  shows "\<exists>document. generate_enhanced_patent writer d = Inr document"
proof -
  from validate_disclosure_Inr [OF v] obtain s where s: "technical_solution d = Some s"
    by blast
  have "process_disclosure writer d True
          = Inr (Some (application\<lparr>app_title := title d\<rparr>), Some r)"
    using ok by (simp add: process_disclosure_def v assemble_application_def rq w)
  then show ?thesis
    by (simp add: generate_enhanced_patent_def format_enhanced_application_def s
        generate_claims_from_disclosure_def)
qed

theorem invalid_disclosure_is_not_assembled_witness:
  "validate_disclosure scenario_b = Inr result_b \<and> \<not> is_valid result_b
   \<and> process_disclosure failing_writer scenario_b True = Inr (None, Some result_b)
   \<and> process_disclosure sample_writer scenario_b True = Inr (None, Some result_b)
   \<and> generate_enhanced_patent sample_writer scenario_b = Inr (failure_report (Some result_b))
   \<and> failure_report (Some result_b)
       = lit_fail @ nl @ lit_cross @ ascii '' '' @ msg_utility_figures @ nl
         @ lit_warn @ ascii '' '' @ msg_no_embodiment @ nl
         @ lit_warn @ ascii '' '' @ msg_no_figures @ nl"
proof -
  have inv: "\<not> is_valid result_b" by (simp add: result_b_def)
  from invalid_disclosure_is_not_assembled [OF validate_scenario_b inv, of failing_writer]
    invalid_disclosure_is_not_assembled [OF validate_scenario_b inv, of sample_writer]
    validate_scenario_b inv
  show ?thesis by (simp add: failure_report_def result_b_def)
qed

lemma request_Some:
  "technical_solution d = Some s \<Longrightarrow> \<exists>request. disclosure_to_patent_request d = Inr request"
  by (simp add: disclosure_to_patent_request_def)

text \<open>
  Claim C10, as amended: for every disclosure whose technical solution is present,
  \<open>process_disclosure\<close> with \<open>validate\<close> false goes on to assemble the application,
  whatever the validator would say about the disclosure: it normalizes the disclosure and
  calls the writer. When the writer returns an application, the result is that
  application under the disclosure's title, with \<open>None\<close> as the validation result; when
  the writer raises, so does the call.
\<close>

theorem validation_gate_bypassed:
  assumes s: "technical_solution d = Some s"
  shows "\<exists>request. disclosure_to_patent_request d = Inr request
           \<and> process_disclosure writer d False =
               (case writer request (applicant_info_of d) (inventor_info_of d) of
                  Inl e \<Rightarrow> Inl e
                | Inr application \<Rightarrow> Inr (Some (application\<lparr>app_title := title d\<rparr>), None))"
proof -
  from request_Some [OF s] obtain request where rq: "disclosure_to_patent_request d = Inr request"
    by blast
  have "process_disclosure writer d False =
      (case writer request (applicant_info_of d) (inventor_info_of d) of
         Inl e \<Rightarrow> Inl e
       | Inr application \<Rightarrow> Inr (Some (application\<lparr>app_title := title d\<rparr>), None))"
    by (simp add: process_disclosure_def assemble_application_def rq split: sum.splits)
  with rq show ?thesis by blast
qed

text \<open>
  The witness is Scenario B, which the validator rejects: with validation the pipeline
  returns no application, without it the application of the writer, and the exception of
  a writer that raises.
\<close>

theorem validation_gate_bypassed_witness:
  "technical_solution scenario_b = Some solution_a
   \<and> validate_disclosure scenario_b = Inr result_b \<and> \<not> is_valid result_b
   \<and> process_disclosure sample_writer scenario_b True = Inr (None, Some result_b)
   \<and> map_sum id snd (process_disclosure sample_writer scenario_b False) = Inr None
   \<and> map_sum id (map_option app_title \<circ> fst) (process_disclosure sample_writer scenario_b False)
       = Inr (Some (title scenario_b))
   \<and> process_disclosure failing_writer scenario_b False = Inl WriterError"
proof -
  have inv: "\<not> is_valid result_b" by (simp add: result_b_def)
  have s: "technical_solution scenario_b = Some solution_a"
    by (simp add: scenario_b_def scenario_a_def)
  from validation_gate_bypassed [OF s, of sample_writer]
  obtain request where
    "process_disclosure sample_writer scenario_b False =
       (case sample_writer request (applicant_info_of scenario_b) (inventor_info_of scenario_b) of
          Inl e \<Rightarrow> Inl e
        | Inr application \<Rightarrow> Inr (Some (application\<lparr>app_title := title scenario_b\<rparr>), None))"
    by blast
  then have "map_sum id snd (process_disclosure sample_writer scenario_b False) = Inr None
    \<and> map_sum id (map_option app_title \<circ> fst) (process_disclosure sample_writer scenario_b False)
       = Inr (Some (title scenario_b))"
    by (simp add: sample_writer_def)
  moreover from validation_gate_bypassed [OF s, of failing_writer]
  have "process_disclosure failing_writer scenario_b False = Inl WriterError"
    by (auto simp add: failing_writer_def)
  moreover have "process_disclosure sample_writer scenario_b True = Inr (None, Some result_b)"
    using inv by (simp add: process_disclosure_def validate_scenario_b)
  ultimately show ?thesis using s validate_scenario_b inv by simp
qed

text \<open>
  Claim C10 as stated (for every disclosure the call returns an application) fails on
  Scenario A with the technical solution absent: line 164 of the normalizer reads the
  overview of \<open>None\<close>, and the call raises \<open>AttributeError\<close> before the writer is reached.
\<close>

theorem validation_gate_bypassed_counterexample:
  "technical_solution no_solution = None
   \<and> disclosure_to_patent_request no_solution = Inl AttributeError
   \<and> process_disclosure sample_writer no_solution False = Inl AttributeError"
  by (simp add: process_disclosure_def assemble_application_def disclosure_to_patent_request_def
      no_solution_def)

end
